theory Spec2Isabelle
  imports Main
begin

section \<open>The syntax tree handed to the analyzer\<close>

text \<open>
  \<^verbatim>\<open>ReactComponentAnalyzer\<close> works on the tree that \<^verbatim>\<open>@babel/parser\<close> returns.
  Node types whose fields the analyzer reads have a constructor of their own, with the
  fields in the order in which the library's traversal descends into them. Every other
  node type (statements, member expressions, JSX, ...) is \<open>Other\<close>: its type tag and its
  children in traversal order (\<open>None\<close> is a \<^verbatim>\<open>null\<close> slot, like a hole in an array
  literal). Type annotations and decorators hanging off identifiers and patterns are not
  represented. Strings are byte strings, a source string in UTF-8.
\<close>

record position =
  line :: nat
  column :: nat

datatype node =
    File node
  | Program "node list"
  | Identifier string
  | StringLiteral string
  | NumericLiteral nat string
  | BooleanLiteral bool
  | NullLiteral
  | ArrayExpression "node option list"
  | ObjectExpression "node list"
  | ObjectProperty node node
  | ArrowFunctionExpression "node list" node
  | FunctionExpression "node option" "node list" node
  | FunctionDeclaration "node option" "node list" node
  | CallExpression "position option" node "node list"
  | ArrayPattern "node option list"
  | ObjectPattern "node list"
  | VariableDeclarator node "node option"
  | ExportDefaultDeclaration node
  | BlockStatement "node list"
  | Other string "node option list"

text \<open>The \<^verbatim>\<open>type\<close> field of a node.\<close>

fun ntype :: "node \<Rightarrow> string" where
  "ntype (File _) = ''File''"
| "ntype (Program _) = ''Program''"
| "ntype (Identifier _) = ''Identifier''"
| "ntype (StringLiteral _) = ''StringLiteral''"
| "ntype (NumericLiteral _ _) = ''NumericLiteral''"
| "ntype (BooleanLiteral _) = ''BooleanLiteral''"
| "ntype NullLiteral = ''NullLiteral''"
| "ntype (ArrayExpression _) = ''ArrayExpression''"
| "ntype (ObjectExpression _) = ''ObjectExpression''"
| "ntype (ObjectProperty _ _) = ''ObjectProperty''"
| "ntype (ArrowFunctionExpression _ _) = ''ArrowFunctionExpression''"
| "ntype (FunctionExpression _ _ _) = ''FunctionExpression''"
| "ntype (FunctionDeclaration _ _ _) = ''FunctionDeclaration''"
| "ntype (CallExpression _ _ _) = ''CallExpression''"
| "ntype (ArrayPattern _) = ''ArrayPattern''"
| "ntype (ObjectPattern _) = ''ObjectPattern''"
| "ntype (VariableDeclarator _ _) = ''VariableDeclarator''"
| "ntype (ExportDefaultDeclaration _) = ''ExportDefaultDeclaration''"
| "ntype (BlockStatement _) = ''BlockStatement''"
| "ntype (Other t _) = t"

text \<open>The present children of a node, in the order the traversal enters them.\<close>

fun present :: "'a option list \<Rightarrow> 'a list" where
  "present [] = []"
| "present (None # xs) = present xs"
| "present (Some x # xs) = x # present xs"

fun optional :: "'a option \<Rightarrow> 'a list" where
  "optional x = (case x of None \<Rightarrow> [] | Some y \<Rightarrow> [y])"

fun children :: "node \<Rightarrow> node list" where
  "children (File p) = [p]"
| "children (Program body) = body"
| "children (ArrayExpression elements) = present elements"
| "children (ObjectExpression properties) = properties"
| "children (ObjectProperty k v) = [k, v]"
| "children (ArrowFunctionExpression params body) = params @ [body]"
| "children (FunctionExpression ident params body) = optional ident @ params @ [body]"
| "children (FunctionDeclaration ident params body) = optional ident @ params @ [body]"
| "children (CallExpression _ callee arguments) = callee # arguments"
| "children (ArrayPattern elements) = present elements"
| "children (ObjectPattern properties) = properties"
| "children (VariableDeclarator ident init) = ident # optional init"
| "children (ExportDefaultDeclaration declaration) = [declaration]"
| "children (BlockStatement body) = body"
| "children (Other _ cs) = present cs"
| "children _ = []"

lemma size_present:
  "size_list size (present xs) \<le> size_list (size_option size) xs"
  by (induction xs rule: present.induct) auto

lemma list_member_size:
  "x \<in> set xs \<Longrightarrow> size x < Suc (size_list size xs)"
  by (induction xs) auto

lemma present_member_size:
  "x \<in> set (present xs) \<Longrightarrow> size x < Suc (size_list (size_option size) xs)"
  using list_member_size [of x "present xs"] size_present [of xs] by simp

lemma children_size: "c \<in> set (children n) \<Longrightarrow> size c < size n"
  by (cases n) (auto dest: present_member_size list_member_size split: option.splits)


section \<open>The traversal\<close>

text \<open>
  \<^verbatim>\<open>traverse(root, visitors)\<close> of \<^verbatim>\<open>@babel/traverse\<close> enters every node below the root in
  document order and hands the visitor a path: the node, its parent node and the scope it
  lies in. The analyzer's visitors only read the tree, so a traversal is the list of its
  paths, and a visitor with mutable local state is a left fold over that list. The fields
  \<open>node\<close>, \<open>parent\<close> and \<open>scope_block\<close> are \<^verbatim>\<open>path.node\<close>, \<^verbatim>\<open>path.parent\<close> and
  \<^verbatim>\<open>path.scope.block\<close>. The library is not part of the repository; its walk is taken as
  described here for every root, also for the block of a scope, where
  \<^verbatim>\<open>countVariableUsage\<close> starts one.
\<close>

record path =
  node :: node
  parent :: node
  scope_block :: node

definition isFunction :: "node \<Rightarrow> bool" where
  "isFunction n = (ntype n \<in> set [''FunctionDeclaration'', ''FunctionExpression'',
     ''ObjectMethod'', ''ArrowFunctionExpression'', ''ClassMethod'', ''ClassPrivateMethod''])"

definition isPattern :: "node \<Rightarrow> bool" where
  "isPattern n = (ntype n \<in> set [''AssignmentPattern'', ''ArrayPattern'', ''ObjectPattern''])"

definition isScopable :: "node \<Rightarrow> bool" where
  "isScopable n = (ntype n \<in> set [''BlockStatement'', ''CatchClause'', ''DoWhileStatement'',
     ''ForInStatement'', ''ForStatement'', ''FunctionDeclaration'', ''FunctionExpression'',
     ''Program'', ''ObjectMethod'', ''SwitchStatement'', ''WhileStatement'',
     ''ArrowFunctionExpression'', ''ClassExpression'', ''ClassDeclaration'', ''ForOfStatement'',
     ''ClassMethod'', ''ClassPrivateMethod'', ''StaticBlock'', ''TSModuleBlock''])"

text \<open>Whether a node opens a scope of its own, given its parent (the library's \<^verbatim>\<open>isScope\<close>).\<close>

definition isScope :: "node \<Rightarrow> node \<Rightarrow> bool" where
  "isScope n par =
     (if ntype n = ''BlockStatement'' \<and> (isFunction par \<or> ntype par = ''CatchClause'') then False
      else if isPattern n \<and> (isFunction par \<or> ntype par = ''CatchClause'') then True
      else isScopable n)"

function visit :: "node \<Rightarrow> node \<Rightarrow> node \<Rightarrow> path list" where
  "visit par sc n =
     \<lparr>node = n, parent = par, scope_block = (if isScope n par then n else sc)\<rparr> #
       concat (map (visit n (if isScope n par then n else sc)) (children n))"
  by pat_completeness auto
termination
  by (relation "measure (\<lambda>(par, sc, n). size n)") (auto simp: children_size)

declare visit.simps [simp del]

definition traverse :: "node \<Rightarrow> path list" where
  "traverse root = concat (map (visit root root) (children root))"

section \<open>The analyzer's records\<close>

record StateInfo =
  s_name :: string
  initialValue :: "string option"
  setter :: string
  usageCount :: "nat option"

record PropInfo =
  p_name :: string
  p_type :: string
  required :: bool
  defaultValue :: "string option"
  p_description :: "string option"

record HookInfo =
  h_name :: string
  dependencies :: "string list option"
  callLocation :: position
  h_value :: "string option"

record ContextInfo =
  c_name :: string
  usageLocations :: "position list"
  c_value :: "string option"

datatype store_type = redux | mobx | recoil | zustand | jotai | other

datatype store_category = actions | selectors

record StoreInfo =
  st_type :: store_type
  st_actions :: "string list"
  st_selectors :: "string list"

record ComponentInfo =
  name :: string
  filePath :: string
  hooks :: "HookInfo list"
  states :: "StateInfo list"
  contexts :: "ContextInfo list"
  props :: "PropInfo list"
  description :: "string option"
  storeUsage :: "StoreInfo list option"

section \<open>Reading nodes\<close>

text \<open>\<^verbatim>\<open>n.name\<close>: only identifiers carry one; \<open>None\<close> is \<^verbatim>\<open>undefined\<close>.\<close>

fun nameOf :: "node \<Rightarrow> string option" where
  "nameOf (Identifier n) = Some n"
| "nameOf _ = None"

fun callee :: "node \<Rightarrow> node option" where
  "callee (CallExpression _ c _) = Some c"
| "callee _ = None"

fun arguments :: "node \<Rightarrow> node list" where
  "arguments (CallExpression _ _ args) = args"
| "arguments _ = []"

fun loc :: "node \<Rightarrow> position option" where
  "loc (CallExpression l _ _) = l"
| "loc _ = None"

text \<open>\<^verbatim>\<open>path.node.loc ? path.node.loc.start : {line: 0, column: 0}\<close>, field by field.\<close>

definition startOf :: "node \<Rightarrow> position" where
  "startOf n = (case loc n of Some l \<Rightarrow> \<lparr>line = line l, column = column l\<rparr>
                | None \<Rightarrow> \<lparr>line = 0, column = 0\<rparr>)"

text \<open>\<^verbatim>\<open>Array.prototype.join\<close>.\<close>

fun join :: "string \<Rightarrow> string list \<Rightarrow> string" where
  "join sep [] = []"
| "join sep [x] = x"
| "join sep (x # y # ys) = x @ sep @ join sep (y # ys)"

text \<open>\<^verbatim>\<open>elements.filter(el => el && el.type === 'Identifier').map(el => el.name)\<close>.\<close>

fun elementNames :: "node option list \<Rightarrow> string list" where
  "elementNames [] = []"
| "elementNames (Some (Identifier n) # es) = n # elementNames es"
| "elementNames (_ # es) = elementNames es"

text \<open>
  \<^verbatim>\<open>properties.filter(prop => prop.key && prop.key.type === 'Identifier').map(prop => prop.key.name)\<close>.
  A rest element of an object pattern has no key; it is an \<open>Other\<close> node here.
\<close>

fun propertyNames :: "node list \<Rightarrow> string list" where
  "propertyNames [] = []"
| "propertyNames (ObjectProperty (Identifier k) _ # ps) = k # propertyNames ps"
| "propertyNames (_ # ps) = propertyNames ps"


fun elementName :: "node option \<Rightarrow> string option" where
  "elementName (Some (Identifier n)) = Some n"
| "elementName _ = None"

text \<open>
  The binding site of a call: \<^verbatim>\<open>parent.id\<close> when the parent is a variable declarator
  (\<^verbatim>\<open>parent.type === 'VariableDeclarator'\<close>), by the shape of the bound pattern.
\<close>

fun boundIdentifier :: "node \<Rightarrow> string option" where
  "boundIdentifier (VariableDeclarator (Identifier n) _) = Some n"
| "boundIdentifier _ = None"

fun boundArrayElements :: "node \<Rightarrow> node option list option" where
  "boundArrayElements (VariableDeclarator (ArrayPattern elements) _) = Some elements"
| "boundArrayElements _ = None"

fun boundObjectProperties :: "node \<Rightarrow> node list option" where
  "boundObjectProperties (VariableDeclarator (ObjectPattern properties) _) = Some properties"
| "boundObjectProperties _ = None"

text \<open>The callee of the visited call when it is a bare identifier.\<close>

definition identifierCallee :: "path \<Rightarrow> string option" where
  "identifierCallee p = Option.bind (callee (node p)) nameOf"

section \<open>Component identity\<close>

definition upperChars :: string where
  "upperChars = ''ABCDEFGHIJKLMNOPQRSTUVWXYZ''"

definition alnumChars :: string where
  "alnumChars = ''ABCDEFGHIJKLMNOPQRSTUVWXYZabcdefghijklmnopqrstuvwxyz0123456789''"

text \<open>\<^verbatim>\<open>/^[A-Z][A-Za-z0-9]*$/.test(str)\<close>.\<close>

fun isPascalCase :: "string \<Rightarrow> bool" where
  "isPascalCase [] = False"
| "isPascalCase (c # cs) = (List.member upperChars c \<and> list_all (List.member alnumChars) cs)"

text \<open>\<^verbatim>\<open>String.prototype.split\<close> on a class of separator characters.\<close>

fun splitOn :: "(char \<Rightarrow> bool) \<Rightarrow> string \<Rightarrow> string list" where
  "splitOn sep [] = [[]]"
| "splitOn sep (c # cs) =
     (if sep c then [] # splitOn sep cs
      else (case splitOn sep cs of [] \<Rightarrow> [[c]] | w # ws \<Rightarrow> (c # w) # ws))"

text \<open>
  \<^verbatim>\<open>filePath.split(/[\/\\]/)\<close>, the last part, and of it \<^verbatim>\<open>split('.')[0]\<close>. A split is
  never empty, so \<open>last\<close> and \<open>hd\<close> read elements that exist.
\<close>

definition fileNameWithoutExt :: "string \<Rightarrow> string" where
  "fileNameWithoutExt fp =
     hd (splitOn (\<lambda>c. c = CHR ''.'')
       (last (splitOn (\<lambda>c. c = CHR ''/'' \<or> c = CHR 0x5C) fp)))"

text \<open>The two locals of \<^verbatim>\<open>extractComponentName\<close> that its visitors assign.\<close>

record resolver =
  componentName :: "string option"
  foundInAST :: bool

fun ident :: "node \<Rightarrow> node option" where
  "ident (FunctionDeclaration i _ _) = i"
| "ident (FunctionExpression i _ _) = i"
| "ident (VariableDeclarator i _) = Some i"
| "ident _ = None"

fun init :: "node \<Rightarrow> node option" where
  "init (VariableDeclarator _ i) = i"
| "init _ = None"

text \<open>Rule (1): the \<^verbatim>\<open>FunctionDeclaration\<close> visitor's condition, with the name it assigns.\<close>

definition functionCandidate :: "node \<Rightarrow> string option" where
  "functionCandidate n =
     (if ntype n = ''FunctionDeclaration'' then
        (case Option.bind (ident n) nameOf of
           Some nm \<Rightarrow> if isPascalCase nm then Some nm else None
         | None \<Rightarrow> None)
      else None)"

text \<open>Rule (2): the \<^verbatim>\<open>VariableDeclarator\<close> visitor's condition, with the name it assigns.\<close>

definition variableCandidate :: "node \<Rightarrow> string option" where
  "variableCandidate n =
     (if ntype n = ''VariableDeclarator'' then
        (case Option.bind (ident n) nameOf of
           Some nm \<Rightarrow>
             if isPascalCase nm \<and>
                (map_option ntype (init n) = Some ''ArrowFunctionExpression'' \<or>
                 map_option ntype (init n) = Some ''FunctionExpression'')
             then Some nm else None
         | None \<Rightarrow> None)
      else None)"

text \<open>The shape test of the \<^verbatim>\<open>ExportDefaultDeclaration\<close> visitor on the declaration.\<close>

fun anonymousDefault :: "node \<Rightarrow> bool" where
  "anonymousDefault (ExportDefaultDeclaration d) =
     (ntype d = ''ArrowFunctionExpression'' \<or> ntype d = ''FunctionExpression'' \<or>
      (ntype d = ''FunctionDeclaration'' \<and> ident d = None))"
| "anonymousDefault _ = False"

definition nameVisitor :: "string \<Rightarrow> resolver \<Rightarrow> path \<Rightarrow> resolver" where
  "nameVisitor fileName st p =
     (case functionCandidate (node p) of
        Some nm \<Rightarrow> \<lparr>componentName = Some nm, foundInAST = True\<rparr>
      | None \<Rightarrow>
     (case variableCandidate (node p) of
        Some nm \<Rightarrow> \<lparr>componentName = Some nm, foundInAST = True\<rparr>
      | None \<Rightarrow>
        if anonymousDefault (node p) \<and> foundInAST st = False \<and> isPascalCase fileName
        then \<lparr>componentName = Some fileName, foundInAST = True\<rparr>
        else st))"

text \<open>The tail of \<^verbatim>\<open>extractComponentName\<close>, after the traversal.\<close>

definition resolved :: "string \<Rightarrow> string option \<Rightarrow> string option" where
  "resolved fileName found =
     (case found of
        None \<Rightarrow> if isPascalCase fileName then Some fileName else None
      | Some c \<Rightarrow>
          if c = [] then (if isPascalCase fileName then Some fileName else None)
          else if c \<noteq> fileName \<and> isPascalCase fileName
          then Some (c @ '' ('' @ fileName @ '')'')
          else Some c)"

definition extractComponentName :: "string \<Rightarrow> node \<Rightarrow> string option" where
  "extractComponentName fp ast =
     resolved (fileNameWithoutExt fp)
       (componentName
          (foldl (nameVisitor (fileNameWithoutExt fp))
             \<lparr>componentName = None, foundInAST = False\<rparr> (traverse ast)))"


section \<open>Hooks, states and contexts\<close>

text \<open>
  \<^verbatim>\<open>Number.prototype.toString\<close> on the value of a numeric literal. Values are the
  non-negative integers, which print as their decimal digits; fractions and the exponent
  forms of very large values are outside the embedding. The second field of
  \<open>NumericLiteral\<close> is the literal's source text (\<^verbatim>\<open>extra.raw\<close>), which the analyzer
  does not read.
\<close>

definition digitChar :: "nat \<Rightarrow> char" where
  "digitChar d = ''0123456789'' ! d"

fun toString :: "nat \<Rightarrow> string" where
  "toString n = (if n < 10 then [digitChar n] else toString (n div 10) @ [digitChar (n mod 10)])"

declare toString.simps [simp del]

text \<open>The literal rendering of \<^verbatim>\<open>extractStateFromUseState\<close> on the first argument.\<close>

fun literalText :: "node \<Rightarrow> string option" where
  "literalText (StringLiteral v) = Some ([CHR 0x22] @ v @ [CHR 0x22])"
| "literalText (NumericLiteral v raw) = Some (toString v)"
| "literalText (BooleanLiteral b) = Some (if b then ''true'' else ''false'')"
| "literalText NullLiteral = Some ''null''"
| "literalText (ArrayExpression _) = Some ''[]''"
| "literalText (ObjectExpression _) = Some ''{}''"
| "literalText _ = None"

definition countVariableUsage :: "path \<Rightarrow> string \<Rightarrow> nat" where
  "countVariableUsage p variableName =
     length (filter
       (\<lambda>innerPath. nameOf (node innerPath) = Some variableName \<and>
                    ntype (parent innerPath) \<noteq> ''VariableDeclarator'')
       (traverse (scope_block p)))"

text \<open>
  The first two elements of the array pattern a call is bound to, as the names
  \<^verbatim>\<open>stateName\<close> and \<^verbatim>\<open>setterName\<close> (\<open>None\<close> is \<^verbatim>\<open>null\<close>: never assigned).
\<close>

definition boundPair :: "node \<Rightarrow> string option \<times> string option" where
  "boundPair par =
     (case boundArrayElements par of
        Some elements \<Rightarrow>
          if length elements \<ge> 2
          then (elementName (elements ! 0), elementName (elements ! 1))
          else (None, None)
      | None \<Rightarrow> (None, None))"

text \<open>
  \<^verbatim>\<open>if (!stateName || !setterName) return null\<close>: a name that was never assigned or is
  the empty string ends the extraction.
\<close>

definition extractStateFromUseState :: "path \<Rightarrow> StateInfo option" where
  "extractStateFromUseState p =
     (case boundPair (parent p) of
        (Some stateName, Some setterName) \<Rightarrow>
          if stateName = [] \<or> setterName = [] then None
          else Some \<lparr>s_name = stateName,
                     initialValue = (case arguments (node p) of
                                       [] \<Rightarrow> None
                                     | initArg # _ \<Rightarrow> literalText initArg),
                     setter = setterName,
                     usageCount = Some (countVariableUsage p stateName)\<rparr>
      | _ \<Rightarrow> None)"

text \<open>One element of a dependency array, as \<^verbatim>\<open>extractHookInfo\<close> renders it.\<close>

fun dependencyName :: "node option \<Rightarrow> string" where
  "dependencyName (Some (Identifier n)) = n"
| "dependencyName (Some (CallExpression _ c _)) =
     (case nameOf c of
        Some n \<Rightarrow> if n = [] then ''Anonymous function call'' else n
      | None \<Rightarrow> ''Anonymous function call'')"
| "dependencyName _ = ''Unknown dependency''"

fun arrayElements :: "node \<Rightarrow> node option list option" where
  "arrayElements (ArrayExpression elements) = Some elements"
| "arrayElements _ = None"

definition extractHookValue :: "path \<Rightarrow> string option" where
  "extractHookValue p =
     (case boundIdentifier (parent p) of
        Some n \<Rightarrow> Some n
      | None \<Rightarrow>
     (case boundArrayElements (parent p) of
        Some elements \<Rightarrow>
          if length elements \<ge> 1 \<and> elementNames elements \<noteq> []
          then Some (''['' @ join '', '' (elementNames elements) @ '']'')
          else None
      | None \<Rightarrow>
     (case boundObjectProperties (parent p) of
        Some properties \<Rightarrow>
          if propertyNames properties \<noteq> []
          then Some (''{ '' @ join '', '' (propertyNames properties) @ '' }'')
          else None
      | None \<Rightarrow> None)))"

text \<open>
  \<^verbatim>\<open>extractHookInfo\<close> is called on a call whose callee is an identifier; the entry is
  built from that name. On any other callee the result is \<open>None\<close>.
\<close>

definition extractHookInfo :: "path \<Rightarrow> HookInfo option" where
  "extractHookInfo p =
     (case identifierCallee p of
        None \<Rightarrow> None
      | Some calleeName \<Rightarrow>
          Some \<lparr>h_name = calleeName,
                dependencies =
                  (if calleeName = ''useEffect'' \<or> calleeName = ''useMemo'' \<or>
                      calleeName = ''useCallback''
                   then (if length (arguments (node p)) > 1
                         then (case arrayElements (arguments (node p) ! 1) of
                                 Some deps \<Rightarrow>
                                   Some (filter (\<lambda>d. d \<noteq> []) (map dependencyName deps))
                               | None \<Rightarrow> None)
                         else None)
                   else None),
                callLocation = startOf (node p),
                h_value = extractHookValue p\<rparr>)"

definition extractContextValue :: "path \<Rightarrow> string option" where
  "extractContextValue p =
     (let contextName = (case arguments (node p) of
                           [] \<Rightarrow> ''unknown''
                         | contextArg # _ \<Rightarrow>
                             (case nameOf contextArg of Some n \<Rightarrow> n | None \<Rightarrow> ''unknown''))
      in case boundIdentifier (parent p) of
           Some n \<Rightarrow> Some (n @ '' (from '' @ contextName @ '')'')
         | None \<Rightarrow>
             (case boundObjectProperties (parent p) of
                Some properties \<Rightarrow>
                  if propertyNames properties \<noteq> []
                  then Some (''{ '' @ join '', '' (propertyNames properties) @
                             '' } (from '' @ contextName @ '')'')
                  else Some (''from '' @ contextName)
              | None \<Rightarrow> Some (''from '' @ contextName)))"

definition extractContextInfo :: "path \<Rightarrow> ContextInfo option" where
  "extractContextInfo p =
     (case arguments (node p) of
        [] \<Rightarrow> None
      | contextArg # _ \<Rightarrow>
          (case nameOf contextArg of
             None \<Rightarrow> None
           | Some n \<Rightarrow>
               Some \<lparr>c_name = n,
                     usageLocations = [startOf (node p)],
                     c_value = extractContextValue p\<rparr>))"


section \<open>External stores\<close>

text \<open>The action marker of \<^verbatim>\<open>useDispatch\<close>: the source's Korean literal, as its UTF-8 bytes.\<close>

definition dispatchMarker :: string where
  "dispatchMarker = [CHR 0xEB, CHR 0x94, CHR 0x94, CHR 0xEC, CHR 0x8A, CHR 0xA4,
                     CHR 0xED, CHR 0x8C, CHR 0xA8, CHR 0xEC, CHR 0xB9, CHR 0x98]"

definition getCalleeArgumentName :: "path \<Rightarrow> string" where
  "getCalleeArgumentName p =
     (case arguments (node p) of
        [] \<Rightarrow> ''Anonymous argument''
      | arg # _ \<Rightarrow> (case nameOf arg of Some n \<Rightarrow> n | None \<Rightarrow> ''Anonymous argument''))"

text \<open>\<^verbatim>\<open>if (!storeInfo[category].includes(name)) storeInfo[category].push(name)\<close>.\<close>

fun addName :: "store_category \<Rightarrow> string \<Rightarrow> StoreInfo \<Rightarrow> StoreInfo" where
  "addName actions nm s =
     (if List.member (st_actions s) nm then s else s\<lparr>st_actions := st_actions s @ [nm]\<rparr>)"
| "addName selectors nm s =
     (if List.member (st_selectors s) nm then s else s\<lparr>st_selectors := st_selectors s @ [nm]\<rparr>)"

text \<open>
  \<^verbatim>\<open>find\<close> returns the first entry of the type and the push changes that object in
  place: the list with its first matching entry updated.
\<close>

fun updateFirst :: "('a \<Rightarrow> bool) \<Rightarrow> ('a \<Rightarrow> 'a) \<Rightarrow> 'a list \<Rightarrow> 'a list" where
  "updateFirst P f [] = []"
| "updateFirst P f (x # xs) = (if P x then f x # xs else x # updateFirst P f xs)"

definition storeList :: "ComponentInfo \<Rightarrow> StoreInfo list" where
  "storeList ci = (case storeUsage ci of None \<Rightarrow> [] | Some su \<Rightarrow> su)"

definition addStoreInfo ::
  "ComponentInfo \<Rightarrow> store_type \<Rightarrow> store_category \<Rightarrow> string \<Rightarrow> ComponentInfo" where
  "addStoreInfo ci type category nm =
     (let su = (if list_ex (\<lambda>store. st_type store = type) (storeList ci) then storeList ci
                else storeList ci @ [\<lparr>st_type = type, st_actions = [], st_selectors = []\<rparr>])
      in ci\<lparr>storeUsage := Some (updateFirst (\<lambda>store. st_type store = type)
                                  (addName category nm) su)\<rparr>)"

text \<open>
  The selector entry of \<^verbatim>\<open>useSelector\<close> and \<^verbatim>\<open>useStore\<close>: the argument name, followed
  by the destructured keys when the call is bound to an object pattern with named keys.
\<close>

definition selectorEntry :: "path \<Rightarrow> string" where
  "selectorEntry p =
     (let selectorProps = (case boundObjectProperties (parent p) of
                             Some properties \<Rightarrow> propertyNames properties
                           | None \<Rightarrow> [])
      in if length selectorProps > 0
         then getCalleeArgumentName p @ '' -> { '' @ join '', '' selectorProps @ '' }''
         else getCalleeArgumentName p)"

definition detectStoreUsage :: "path \<Rightarrow> ComponentInfo \<Rightarrow> ComponentInfo" where
  "detectStoreUsage p ci0 =
     (let ci = ci0\<lparr>storeUsage := Some (storeList ci0)\<rparr>
      in case identifierCallee p of
           None \<Rightarrow> ci
         | Some n \<Rightarrow>
             if n = ''useSelector'' then addStoreInfo ci redux selectors (selectorEntry p)
             else if n = ''useDispatch'' then addStoreInfo ci redux actions dispatchMarker
             else if n = ''useRecoilState''
               then addStoreInfo ci recoil selectors (getCalleeArgumentName p)
             else if n = ''useRecoilValue''
               then addStoreInfo ci recoil selectors (getCalleeArgumentName p)
             else if n = ''useStore'' then addStoreInfo ci zustand selectors (selectorEntry p)
             else if n = ''useAtom''
               then addStoreInfo ci jotai selectors (getCalleeArgumentName p)
             else ci)"

section \<open>The extraction traversal\<close>

text \<open>The body of the \<^verbatim>\<open>CallExpression\<close> visitor of \<^verbatim>\<open>extractComponentDetails\<close>.\<close>

definition recordState :: "path \<Rightarrow> ComponentInfo \<Rightarrow> ComponentInfo" where
  "recordState p ci =
     (case extractStateFromUseState p of
        Some stateInfo \<Rightarrow> ci\<lparr>states := states ci @ [stateInfo]\<rparr>
      | None \<Rightarrow> ci)"

definition recordContext :: "path \<Rightarrow> ComponentInfo \<Rightarrow> ComponentInfo" where
  "recordContext p ci =
     (case extractContextInfo p of
        Some contextInfo \<Rightarrow>
          if list_ex (\<lambda>c. c_name c = c_name contextInfo) (contexts ci) then ci
          else ci\<lparr>contexts := contexts ci @ [contextInfo]\<rparr>
      | None \<Rightarrow> ci)"

definition recordHook :: "path \<Rightarrow> ComponentInfo \<Rightarrow> ComponentInfo" where
  "recordHook p ci =
     (case identifierCallee p of
        None \<Rightarrow> ci
      | Some hookName \<Rightarrow>
          if take 3 hookName = ''use'' \<and> list_ex (\<lambda>h. h_name h = hookName) (hooks ci) = False
          then
            (case extractHookInfo p of
               None \<Rightarrow> ci
             | Some hookInfo \<Rightarrow>
                 (let ci1 = ci\<lparr>hooks := hooks ci @ [hookInfo]\<rparr>;
                      ci2 = (if hookName = ''useState'' then recordState p ci1 else ci1)
                  in if hookName = ''useContext'' then recordContext p ci2 else ci2))
          else ci)"

definition onCallExpression :: "ComponentInfo \<Rightarrow> path \<Rightarrow> ComponentInfo" where
  "onCallExpression ci p = detectStoreUsage p (recordHook p ci)"

definition callPaths :: "node \<Rightarrow> path list" where
  "callPaths ast = filter (\<lambda>p. ntype (node p) = ''CallExpression'') (traverse ast)"

definition extractComponentDetails :: "node \<Rightarrow> ComponentInfo \<Rightarrow> ComponentInfo" where
  "extractComponentDetails ast componentInfo =
     foldl onCallExpression
       (componentInfo\<lparr>hooks := [], states := [], contexts := [], storeUsage := Some []\<rparr>)
       (callPaths ast)"

section \<open>Analysis of one file\<close>

text \<open>
  What the analyzer receives from outside: the outcome of reading and parsing the file,
  and the outcome of the documentation tool on the file. Either can throw.
\<close>

datatype error = Thrown string

record DocProp =
  d_type :: "string option"
  d_required :: bool
  d_defaultValue :: "string option"
  d_description :: string

record ComponentDoc =
  doc_props :: "(string \<times> DocProp) list"
  doc_description :: string

definition toPropInfo :: "string \<times> DocProp \<Rightarrow> PropInfo" where
  "toPropInfo entry =
     \<lparr>p_name = fst entry,
      p_type = (case d_type (snd entry) of
                  None \<Rightarrow> ''unknown''
                | Some t \<Rightarrow> if t = [] then ''unknown'' else t),
      required = d_required (snd entry),
      defaultValue = d_defaultValue (snd entry),
      p_description = Some (d_description (snd entry))\<rparr>"

text \<open>The inner \<^verbatim>\<open>try\<close> of \<^verbatim>\<open>analyzeComponent\<close>: a throw is logged and leaves the record as it is.\<close>

definition mergeProps :: "error + ComponentDoc list \<Rightarrow> ComponentInfo \<Rightarrow> ComponentInfo" where
  "mergeProps docgen ci =
     (case docgen of
        Inl docgenError \<Rightarrow> ci
      | Inr [] \<Rightarrow> ci
      | Inr (doc # _) \<Rightarrow>
          ci\<lparr>props := props ci @ map toPropInfo (doc_props doc),
             description := Some (doc_description doc)\<rparr>)"

text \<open>The record \<^verbatim>\<open>analyzeComponent\<close> starts from; \<^verbatim>\<open>storeUsage\<close> is not yet set.\<close>

definition initialInfo :: "string \<Rightarrow> string \<Rightarrow> ComponentInfo" where
  "initialInfo nm relativePath =
     \<lparr>name = nm, filePath = relativePath, hooks = [], states = [], contexts = [],
      props = [], description = None, storeUsage = None\<rparr>"

text \<open>
  \<^verbatim>\<open>analyzeComponent\<close>, given the path relative to the workspace root, the parse outcome
  and the documentation outcome. \<open>None\<close> is the \<^verbatim>\<open>null\<close> it returns.
\<close>

definition analyzeComponent ::
  "string \<Rightarrow> string \<Rightarrow> error + node \<Rightarrow> error + ComponentDoc list \<Rightarrow> ComponentInfo option" where
  "analyzeComponent fp relativePath parsed docgen =
     (case parsed of
        Inl err \<Rightarrow> None
      | Inr ast \<Rightarrow>
          (case extractComponentName fp ast of
             None \<Rightarrow> None
           | Some nm \<Rightarrow>
               if nm = [] then None
               else Some (mergeProps docgen
                      (extractComponentDetails ast (initialInfo nm relativePath)))))"


section \<open>Notions the properties are stated with\<close>

text \<open>
  The candidates of rules (1) and (2) of the identity resolver: the names the
  \<^verbatim>\<open>FunctionDeclaration\<close> and \<^verbatim>\<open>VariableDeclarator\<close> visitors assign, in document order.
\<close>

definition candidate :: "path \<Rightarrow> string option" where
  "candidate p =
     (case functionCandidate (node p) of
        Some nm \<Rightarrow> Some nm
      | None \<Rightarrow> variableCandidate (node p))"

definition candidates :: "node \<Rightarrow> string list" where
  "candidates ast = List.map_filter candidate (traverse ast)"

text \<open>The default exports of a file: the paths the \<^verbatim>\<open>ExportDefaultDeclaration\<close> visitor sees.\<close>

definition defaultExports :: "node \<Rightarrow> path list" where
  "defaultExports ast =
     filter (\<lambda>p. ntype (node p) = ''ExportDefaultDeclaration'') (traverse ast)"




text \<open>The store tags the detection table can produce.\<close>

definition producedTypes :: "store_type list" where
  "producedTypes = [redux, recoil, zustand, jotai]"




text \<open>
  What the traversal leaves in \<^verbatim>\<open>componentName\<close> and \<^verbatim>\<open>foundInAST\<close>, by the candidates
  seen: with none, nothing or the PascalCase file name; otherwise the last candidate.
\<close>

definition resolverInv :: "string \<Rightarrow> string list \<Rightarrow> resolver \<Rightarrow> bool" where
  "resolverInv f cs st =
     (if cs = []
      then st = \<lparr>componentName = None, foundInAST = False\<rparr> \<or>
           (isPascalCase f \<and> st = \<lparr>componentName = Some f, foundInAST = True\<rparr>)
      else st = \<lparr>componentName = Some (last cs), foundInAST = True\<rparr>)"


section \<open>Sample files\<close>

text \<open>
  \<^verbatim>\<open>function First() {}  function Second() {}\<close>
\<close>

definition twoComponents :: node where
  "twoComponents =
     File (Program
       [FunctionDeclaration (Some (Identifier ''First'')) [] (BlockStatement []),
        FunctionDeclaration (Some (Identifier ''Second'')) [] (BlockStatement [])])"

text \<open>
  \<^verbatim>\<open>const helper = 1;\<close>
\<close>

definition helperModule :: node where
  "helperModule =
     File (Program
       [Other ''VariableDeclaration''
          [Some (VariableDeclarator (Identifier ''helper'') (Some (NumericLiteral 1 ''1'')))]])"


text \<open>
  \<^verbatim>\<open>const Panel = () => {
    const { user, loading } = useSelector(selectUser);
    const dispatch = useDispatch();
    const [count] = useAtom(countAtom);
    return null;
  };\<close>
\<close>

definition panelFile :: node where
  "panelFile =
     File (Program
       [Other ''VariableDeclaration''
          [Some (VariableDeclarator (Identifier ''Panel'')
             (Some (ArrowFunctionExpression []
                (BlockStatement
                   [Other ''VariableDeclaration''
                      [Some (VariableDeclarator
                         (ObjectPattern
                            [ObjectProperty (Identifier ''user'') (Identifier ''user''),
                             ObjectProperty (Identifier ''loading'') (Identifier ''loading'')])
                         (Some (CallExpression (Some \<lparr>line = 2, column = 28\<rparr>)
                            (Identifier ''useSelector'') [Identifier ''selectUser''])))],
                    Other ''VariableDeclaration''
                      [Some (VariableDeclarator (Identifier ''dispatch'')
                         (Some (CallExpression (Some \<lparr>line = 3, column = 19\<rparr>)
                            (Identifier ''useDispatch'') [])))],
                    Other ''VariableDeclaration''
                      [Some (VariableDeclarator (ArrayPattern [Some (Identifier ''count'')])
                         (Some (CallExpression (Some \<lparr>line = 4, column = 18\<rparr>)
                            (Identifier ''useAtom'') [Identifier ''countAtom''])))],
                    Other ''ReturnStatement'' [Some NullLiteral]]))))]])"

text \<open>
  A component with one state declaration, by the argument of the call:
  \<^verbatim>\<open>function Sample() { const [x, setX] = useState(<arg>); return null; }\<close>
  and the path of its \<^verbatim>\<open>useState\<close> call.
\<close>

definition sampleCallNode :: "node list \<Rightarrow> node" where
  "sampleCallNode args =
     CallExpression (Some \<lparr>line = 1, column = 39\<rparr>) (Identifier ''useState'') args"

definition sampleDeclarator :: "node list \<Rightarrow> node" where
  "sampleDeclarator args =
     VariableDeclarator (ArrayPattern [Some (Identifier ''x''), Some (Identifier ''setX'')])
       (Some (sampleCallNode args))"

definition sampleFunction :: "node list \<Rightarrow> node" where
  "sampleFunction args =
     FunctionDeclaration (Some (Identifier ''Sample'')) []
       (BlockStatement
          [Other ''VariableDeclaration'' [Some (sampleDeclarator args)],
           Other ''ReturnStatement'' [Some NullLiteral]])"

definition sampleFile :: "node list \<Rightarrow> node" where
  "sampleFile args = File (Program [sampleFunction args])"

definition sampleCall :: "node list \<Rightarrow> path" where
  "sampleCall args =
     \<lparr>node = sampleCallNode args, parent = sampleDeclarator args,
      scope_block = sampleFunction args\<rparr>"

text \<open>
  The call \<^verbatim>\<open>useEffect(() => {}, [a, b])\<close> as a statement of a function \<^verbatim>\<open>Watcher\<close>.
\<close>

definition effectCallNode :: node where
  "effectCallNode =
     CallExpression (Some \<lparr>line = 2, column = 2\<rparr>) (Identifier ''useEffect'')
       [ArrowFunctionExpression [] (BlockStatement []),
        ArrayExpression [Some (Identifier ''a''), Some (Identifier ''b'')]]"

definition effectFunction :: node where
  "effectFunction =
     FunctionDeclaration (Some (Identifier ''Watcher'')) []
       (BlockStatement
          [Other ''ExpressionStatement'' [Some effectCallNode],
           Other ''ReturnStatement'' [Some NullLiteral]])"

definition effectCall :: path where
  "effectCall =
     \<lparr>node = effectCallNode, parent = Other ''ExpressionStatement'' [Some effectCallNode],
      scope_block = effectFunction\<rparr>"

text \<open>
  \<^verbatim>\<open>function Themed() { const theme = useContext(<args>); return null; }\<close> and the path of
  its \<^verbatim>\<open>useContext\<close> call.
\<close>

definition contextCallNode :: "node list \<Rightarrow> node" where
  "contextCallNode args =
     CallExpression (Some \<lparr>line = 1, column = 35\<rparr>) (Identifier ''useContext'') args"

definition contextDeclarator :: "node list \<Rightarrow> node" where
  "contextDeclarator args =
     VariableDeclarator (Identifier ''theme'') (Some (contextCallNode args))"

definition contextFunction :: "node list \<Rightarrow> node" where
  "contextFunction args =
     FunctionDeclaration (Some (Identifier ''Themed'')) []
       (BlockStatement
          [Other ''VariableDeclaration'' [Some (contextDeclarator args)],
           Other ''ReturnStatement'' [Some NullLiteral]])"

definition contextCall :: "node list \<Rightarrow> path" where
  "contextCall args =
     \<lparr>node = contextCallNode args, parent = contextDeclarator args,
      scope_block = contextFunction args\<rparr>"






section \<open>Lemmas on the folds\<close>

lemma map_filter_snoc:
  "List.map_filter g (xs @ [x]) =
     List.map_filter g xs @ (case g x of None \<Rightarrow> [] | Some y \<Rightarrow> [y])"
  by (simp add: List.map_filter_def split: option.splits)

subsection \<open>The resolver's locals after the traversal\<close>

lemma isPascalCase_nonempty: "isPascalCase s \<Longrightarrow> s \<noteq> []"
  by (cases s) auto

lemma candidate_pascal: "candidate p = Some nm \<Longrightarrow> isPascalCase nm"
  by (auto simp: candidate_def functionCandidate_def variableCandidate_def
      split: option.splits if_splits)

lemma nameVisitor_candidate:
  "candidate p = Some nm \<Longrightarrow>
   nameVisitor f st p = \<lparr>componentName = Some nm, foundInAST = True\<rparr>"
  by (auto simp: candidate_def nameVisitor_def split: option.splits)

lemma nameVisitor_no_candidate:
  "candidate p = None \<Longrightarrow>
   nameVisitor f st p =
     (if anonymousDefault (node p) \<and> foundInAST st = False \<and> isPascalCase f
      then \<lparr>componentName = Some f, foundInAST = True\<rparr> else st)"
  by (auto simp: candidate_def nameVisitor_def split: option.splits)

lemma resolver_fold:
  "resolverInv f (List.map_filter candidate ps)
     (foldl (nameVisitor f) \<lparr>componentName = None, foundInAST = False\<rparr> ps)"
proof (induction ps rule: rev_induct)
  case Nil
  show ?case by (simp add: resolverInv_def)
next
  case (snoc p ps)
  show ?case
  proof (cases "candidate p")
    case None
    with snoc show ?thesis
      by (auto simp: map_filter_snoc nameVisitor_no_candidate resolverInv_def split: if_splits)
  next
    case (Some nm)
    with snoc show ?thesis
      by (simp add: map_filter_snoc nameVisitor_candidate resolverInv_def)
  qed
qed

lemma last_candidate_pascal:
  assumes "List.map_filter candidate ps \<noteq> []"
  shows "isPascalCase (last (List.map_filter candidate ps))"
proof -
  have "last (List.map_filter candidate ps) \<in> set (List.map_filter candidate ps)"
    using assms by simp
  then obtain p where "candidate p = Some (last (List.map_filter candidate ps))"
    by (auto simp: List.map_filter_def)
  then show ?thesis by (rule candidate_pascal)
qed


subsection \<open>The hook list\<close>












subsection \<open>The store list\<close>

lemma st_type_addName: "st_type (addName c nm s) = st_type s"
  by (cases c) simp_all

lemma map_type_updateFirst:
  "map st_type (updateFirst P (addName c nm) xs) = map st_type xs"
  by (induction xs) (simp_all add: st_type_addName)

lemma storeList_addStoreInfo:
  "set (map st_type (storeList (addStoreInfo ci t c nm))) =
     insert t (set (map st_type (storeList ci)))"
  by (auto simp: addStoreInfo_def Let_def storeList_def map_type_updateFirst list_ex_iff
      split: option.splits)

lemma storeList_recordHook: "storeList (recordHook p ci) = storeList ci"
  by (simp add: recordHook_def recordState_def recordContext_def storeList_def Let_def
      split: option.splits)

lemma storeList_normalise: "storeList (ci\<lparr>storeUsage := Some (storeList ci)\<rparr>) = storeList ci"
  by (simp add: storeList_def)

lemma store_types_detect:
  "set (map st_type (storeList (detectStoreUsage p ci))) \<subseteq>
     set producedTypes \<union> set (map st_type (storeList ci))"
  by (auto simp: detectStoreUsage_def Let_def storeList_addStoreInfo storeList_normalise
      producedTypes_def split: option.splits simp del: set_map)

lemma store_types_step:
  "set (map st_type (storeList (onCallExpression ci p))) \<subseteq>
     set producedTypes \<union> set (map st_type (storeList ci))"
  using store_types_detect [of p "recordHook p ci"]
  by (simp only: onCallExpression_def storeList_recordHook)

lemma store_types_fold:
  "set (map st_type (storeList (foldl onCallExpression ci ps))) \<subseteq>
     set producedTypes \<union> set (map st_type (storeList ci))"
proof (induction ps rule: rev_induct)
  case Nil
  show ?case by simp
next
  case (snoc p ps)
  show ?case
    using snoc store_types_step [of "foldl onCallExpression ci ps" p]
    by (simp del: set_map) blast
qed

lemma store_types_extract:
  "set (map st_type (storeList (extractComponentDetails ast ci))) \<subseteq> set producedTypes"
  using store_types_fold
    [of "ci\<lparr>hooks := [], states := [], contexts := [], storeUsage := Some []\<rparr>" "callPaths ast"]
  by (simp add: extractComponentDetails_def storeList_def del: set_map)

lemma storeList_mergeProps: "storeList (mergeProps docgen ci) = storeList ci"
  by (simp add: mergeProps_def storeList_def split: sum.splits list.splits)

subsection \<open>What the extraction leaves alone\<close>










lemma analyzeComponent_Some:
  assumes "analyzeComponent fp rel parsed docgen = Some ci"
  shows "\<exists>ast nm. parsed = Inr ast \<and> extractComponentName fp ast = Some nm \<and>
           ci = mergeProps docgen (extractComponentDetails ast (initialInfo nm rel))"
proof (cases parsed)
  case (Inl err)
  with assms show ?thesis by (simp add: analyzeComponent_def)
next
  case (Inr ast)
  show ?thesis
  proof (cases "extractComponentName fp ast")
    case None
    with assms Inr show ?thesis by (simp add: analyzeComponent_def)
  next
    case (Some nm)
    with assms Inr show ?thesis by (simp add: analyzeComponent_def split: if_splits)
  qed
qed

section \<open>The resolved name\<close>

text \<open>
  C3, as the code has it: when rules (1) and (2) have candidates, the resolved name is
  built from the last candidate in document order (every candidate overwrites the one
  before); it is that candidate itself, or \<^verbatim>\<open>"<candidate> (<file name>)"\<close> when the file's
  base name is PascalCase and differs from it.
\<close>

theorem resolve_last_candidate:
  assumes "candidates ast \<noteq> []"
  shows "extractComponentName fp ast =
           (if last (candidates ast) \<noteq> fileNameWithoutExt fp \<and>
               isPascalCase (fileNameWithoutExt fp)
            then Some (last (candidates ast) @ '' ('' @ fileNameWithoutExt fp @ '')'')
            else Some (last (candidates ast)))"
proof -
  let ?f = "fileNameWithoutExt fp"
  let ?c = "last (candidates ast)"
  have "resolverInv ?f (candidates ast)
          (foldl (nameVisitor ?f) \<lparr>componentName = None, foundInAST = False\<rparr> (traverse ast))"
    unfolding candidates_def by (rule resolver_fold)
  with assms have found:
    "componentName (foldl (nameVisitor ?f) \<lparr>componentName = None, foundInAST = False\<rparr>
       (traverse ast)) = Some ?c"
    by (simp add: resolverInv_def)
  have "?c \<noteq> []"
    using assms last_candidate_pascal [of "traverse ast"] isPascalCase_nonempty
    unfolding candidates_def by blast
  with found show ?thesis
    by (simp add: extractComponentName_def resolved_def)
qed

lemma twoComponents_candidates: "candidates twoComponents = [''First'', ''Second'']"
  by code_simp

lemma index_base_name: "fileNameWithoutExt ''src/index.js'' = ''index''"
  by code_simp

lemma index_not_pascal: "isPascalCase ''index'' = False"
  by code_simp

theorem resolve_last_candidate_witness:
  "candidates twoComponents \<noteq> [] \<and>
   extractComponentName ''src/index.js'' twoComponents = Some ''Second''"
proof -
  have h: "candidates twoComponents \<noteq> []"
    by (simp add: twoComponents_candidates)
  show ?thesis
    using h resolve_last_candidate [OF h, of "''src/index.js''"]
    unfolding index_base_name index_not_pascal twoComponents_candidates
    by simp
qed

text \<open>
  The claim as written fails on a file with two function components: \<^verbatim>\<open>First\<close> comes
  first in document order, and the resolver answers \<^verbatim>\<open>Second\<close>.
\<close>

theorem resolve_first_match_counterexample:
  "candidates twoComponents = [''First'', ''Second''] \<and>
   extractComponentName ''src/index.js'' twoComponents \<noteq> Some ''First''"
proof -
  have "extractComponentName ''src/index.js'' twoComponents = Some ''Second''"
    by code_simp
  then show ?thesis by (simp add: twoComponents_candidates)
qed

text \<open>
  C4, as the code has it: when neither rule (1) nor rule (2) has a candidate, the resolver
  answers the file's base name whenever that name is PascalCase, whatever the file
  exports by default; when the base name is not PascalCase it answers null, and
  \<^verbatim>\<open>analyzeComponent\<close> returns no record for the file.
\<close>

theorem resolve_without_candidate:
  assumes "candidates ast = []"
  shows "extractComponentName fp ast =
           (if isPascalCase (fileNameWithoutExt fp) then Some (fileNameWithoutExt fp) else None) \<and>
         (isPascalCase (fileNameWithoutExt fp) = False \<longrightarrow>
            analyzeComponent fp relativePath (Inr ast) docgen = None)"
proof -
  let ?f = "fileNameWithoutExt fp"
  let ?st = "foldl (nameVisitor ?f) \<lparr>componentName = None, foundInAST = False\<rparr> (traverse ast)"
  have "resolverInv ?f (candidates ast) ?st"
    unfolding candidates_def by (rule resolver_fold)
  with assms have
    "componentName ?st = None \<or> (isPascalCase ?f \<and> componentName ?st = Some ?f)"
    by (auto simp: resolverInv_def)
  then have name: "extractComponentName fp ast = (if isPascalCase ?f then Some ?f else None)"
    using isPascalCase_nonempty [of ?f]
    by (auto simp: extractComponentName_def resolved_def)
  then show ?thesis by (simp add: analyzeComponent_def)
qed

lemma helperModule_candidates: "candidates helperModule = []"
  by code_simp

theorem resolve_without_candidate_witness:
  "candidates helperModule = [] \<and>
   extractComponentName ''src/helper.ts'' helperModule = None \<and>
   analyzeComponent ''src/helper.ts'' ''helper.ts'' (Inr helperModule) (Inr []) = None"
proof -
  have f: "fileNameWithoutExt ''src/helper.ts'' = ''helper''" by code_simp
  have np: "isPascalCase ''helper'' = False" by code_simp
  show ?thesis
    using resolve_without_candidate [OF helperModule_candidates, of "''src/helper.ts''"
        "''helper.ts''" "Inr []"]
    unfolding f np helperModule_candidates
    by simp
qed

text \<open>
  The claim as written fails on a module with no default export at all, named
  \<^verbatim>\<open>Utils.ts\<close>: the resolver still falls back to the file name.
\<close>

theorem resolve_fallback_counterexample:
  "candidates helperModule = [] \<and>
   defaultExports helperModule = [] \<and>
   extractComponentName ''src/Utils.ts'' helperModule = Some ''Utils''"
proof -
  have "defaultExports helperModule = []"
    by code_simp
  moreover have "extractComponentName ''src/Utils.ts'' helperModule = Some ''Utils''"
    by code_simp
  ultimately show ?thesis by (simp add: helperModule_candidates)
qed

section \<open>Hooks\<close>



section \<open>Stores\<close>

text \<open>
  C10: every store entry of a record that \<^verbatim>\<open>analyzeComponent\<close> returns has one of the
  tags redux, recoil, zustand, jotai; the tags mobx and other of the type are never
  produced.
\<close>

theorem store_types_produced:
  assumes "analyzeComponent fp relativePath parsed docgen = Some ci"
  shows "\<forall>s \<in> set (storeList ci).
           st_type s \<in> {redux, recoil, zustand, jotai} \<and> st_type s \<noteq> mobx \<and> st_type s \<noteq> other"
proof
  fix s
  assume s: "s \<in> set (storeList ci)"
  obtain ast nm where
    ci: "ci = mergeProps docgen (extractComponentDetails ast (initialInfo nm relativePath))"
    using analyzeComponent_Some [OF assms] by blast
  have "st_type s \<in> set (map st_type (storeList ci))"
    using s by simp
  also have "\<dots> \<subseteq> set producedTypes"
    unfolding ci storeList_mergeProps by (rule store_types_extract)
  finally show "st_type s \<in> {redux, recoil, zustand, jotai} \<and> st_type s \<noteq> mobx \<and> st_type s \<noteq> other"
    by (auto simp: producedTypes_def)
qed

theorem store_types_produced_witness:
  "\<exists>ci. analyzeComponent ''src/Panel.tsx'' ''src/Panel.tsx'' (Inr panelFile)
           (Inl (Thrown ''no props'')) = Some ci \<and>
        map st_type (storeList ci) = [redux, jotai] \<and>
        list_all (\<lambda>s. st_type s \<in> {redux, recoil, zustand, jotai} \<and>
                       st_type s \<noteq> mobx \<and> st_type s \<noteq> other) (storeList ci)"
proof -
  have "map_option (\<lambda>ci. map st_type (storeList ci))
          (analyzeComponent ''src/Panel.tsx'' ''src/Panel.tsx'' (Inr panelFile)
             (Inl (Thrown ''no props''))) = Some [redux, jotai]"
    by code_simp
  then obtain ci where
    ci: "analyzeComponent ''src/Panel.tsx'' ''src/Panel.tsx'' (Inr panelFile)
           (Inl (Thrown ''no props'')) = Some ci"
    and types: "map st_type (storeList ci) = [redux, jotai]"
    by auto
  have "list_all (\<lambda>s. st_type s \<in> {redux, recoil, zustand, jotai} \<and>
                       st_type s \<noteq> mobx \<and> st_type s \<noteq> other) (storeList ci)"
    using store_types_produced [OF ci] by (simp add: list_all_iff)
  with ci types show ?thesis by (intro exI conjI)
qed

section \<open>The props bridge\<close>



section \<open>State declarations\<close>

lemma sampleCall_visited: "callPaths (sampleFile [StringLiteral ''hi'']) = [sampleCall [StringLiteral ''hi'']]"
  by code_simp

lemma sampleCall_visited_hex:
  "callPaths (sampleFile [NumericLiteral 16 ''0x10'']) = [sampleCall [NumericLiteral 16 ''0x10'']]"
  by code_simp




section \<open>Dependency arrays\<close>

lemma effectCall_visited: "callPaths (File (Program [effectFunction])) = [effectCall]"
  by code_simp




section \<open>Contexts\<close>

lemma contextCall_visited:
  "callPaths (File (Program [contextFunction [Identifier ''ThemeContext'', Identifier ''fallback'']])) =
     [contextCall [Identifier ''ThemeContext'', Identifier ''fallback'']]"
  by code_simp

text \<open>
  C9, as the code has it: context extraction yields an entry for a call exactly when the
  call has at least one argument and its first argument is a bare identifier; further
  arguments are not looked at. The entry's name is that identifier and its usage locations
  are the one position of the call. A call without arguments or with another first
  argument yields nothing.
\<close>

theorem context_extraction:
  "(\<forall>n rest. arguments (node p) = Identifier n # rest \<longrightarrow>
      (\<exists>c. extractContextInfo p = Some c \<and> c_name c = n \<and>
           usageLocations c = [startOf (node p)])) \<and>
   ((\<forall>n rest. arguments (node p) \<noteq> Identifier n # rest) \<longrightarrow> extractContextInfo p = None)"
proof (intro conjI allI impI)
  fix n rest
  assume "arguments (node p) = Identifier n # rest"
  then show "\<exists>c. extractContextInfo p = Some c \<and> c_name c = n \<and>
               usageLocations c = [startOf (node p)]"
    by (simp add: extractContextInfo_def)
next
  assume none: "\<forall>n rest. arguments (node p) \<noteq> Identifier n # rest"
  show "extractContextInfo p = None"
  proof (cases "arguments (node p)")
    case Nil
    then show ?thesis by (simp add: extractContextInfo_def)
  next
    case (Cons a rest)
    with none have "nameOf a = None" by (cases a) auto
    with Cons show ?thesis by (simp add: extractContextInfo_def)
  qed
qed

theorem context_extraction_witness:
  "map_option c_name (extractContextInfo (contextCall [Identifier ''ThemeContext''])) =
     Some ''ThemeContext'' \<and>
   map_option usageLocations (extractContextInfo (contextCall [Identifier ''ThemeContext''])) =
     Some [\<lparr>line = 1, column = 35\<rparr>] \<and>
   extractContextInfo (contextCall []) = None \<and>
   extractContextInfo (contextCall [StringLiteral ''theme'']) = None"
proof -
  have args: "arguments (node (contextCall [Identifier ''ThemeContext''])) =
                Identifier ''ThemeContext'' # []"
    by (simp add: contextCall_def contextCallNode_def)
  have pos: "startOf (node (contextCall [Identifier ''ThemeContext''])) = \<lparr>line = 1, column = 35\<rparr>"
    by (simp add: contextCall_def contextCallNode_def startOf_def)
  have one: "\<exists>c. extractContextInfo (contextCall [Identifier ''ThemeContext'']) = Some c \<and>
               c_name c = ''ThemeContext'' \<and> usageLocations c = [\<lparr>line = 1, column = 35\<rparr>]"
    using context_extraction [of "contextCall [Identifier ''ThemeContext'']"] args pos by simp
  have "arguments (node (contextCall [])) = []"
    by (simp add: contextCall_def contextCallNode_def)
  then have zero: "extractContextInfo (contextCall []) = None"
    using context_extraction [of "contextCall []"] by simp
  have "arguments (node (contextCall [StringLiteral ''theme''])) = [StringLiteral ''theme'']"
    by (simp add: contextCall_def contextCallNode_def)
  then have str: "extractContextInfo (contextCall [StringLiteral ''theme'']) = None"
    using context_extraction [of "contextCall [StringLiteral ''theme'']"] by simp
  from one zero str show ?thesis by auto
qed

text \<open>
  The claim as written fails on a call with two arguments,
  \<^verbatim>\<open>useContext(ThemeContext, fallback)\<close>: its entry is extracted and recorded.
\<close>

theorem context_two_arguments_counterexample:
  "length (arguments (node (contextCall [Identifier ''ThemeContext'', Identifier ''fallback'']))) = 2 \<and>
   map_option c_name
     (extractContextInfo (contextCall [Identifier ''ThemeContext'', Identifier ''fallback''])) =
     Some ''ThemeContext'' \<and>
   map c_name (contexts (extractComponentDetails
     (File (Program [contextFunction [Identifier ''ThemeContext'', Identifier ''fallback'']]))
     (initialInfo ''Themed'' ''src/Themed.tsx''))) = [''ThemeContext'']"
proof -
  have "length (arguments (node (contextCall [Identifier ''ThemeContext'', Identifier ''fallback'']))) = 2"
    by (simp add: contextCall_def contextCallNode_def)
  moreover have "map_option c_name
     (extractContextInfo (contextCall [Identifier ''ThemeContext'', Identifier ''fallback''])) =
     Some ''ThemeContext''"
    by code_simp
  moreover have "map c_name (contexts (extractComponentDetails
     (File (Program [contextFunction [Identifier ''ThemeContext'', Identifier ''fallback'']]))
     (initialInfo ''Themed'' ''src/Themed.tsx''))) = [''ThemeContext'']"
    by code_simp
  ultimately show ?thesis by simp
qed

section \<open>Where the code departs from its description\<close>



end
